theory Spec2Isabelle
  imports Complex_Main "HOL-Library.Sublist"
begin

section \<open>Data model of \<open>src/app.py\<close>\<close>

text \<open>
  The application loads a gradient-boosted model and a handful of lookup tables at start-up
  (part 1 of \<open>app.py\<close>), and encodes one row of user input into the column layout the
  model was trained on (part 2, \<open>codificar_datos_para_modelo\<close>).

  Python numbers that reach the feature row are either integers (the literals \<open>0\<close> and
  \<open>1\<close>, the odometer, the age) or numbers stored in a target-encoding table. The encoder
  never computes with a stored number, it only copies it, so floats are kept opaque: the type
  parameter \<open>'f\<close> stands for whatever representation the tables use.
\<close>

datatype 'f valor = Ent int | Flt 'f

text \<open>
  Column names and category values are Python strings; the two synonyms only say which role
  a string plays in a signature.
\<close>

type_synonym columna = string

type_synonym categoria = string

text \<open>
  The module-level names bound by the loader. A Python \<open>dict\<close> is a partial map; the
  model object is opaque (type parameter \<open>'m\<close>).
\<close>

record ('m, 'f) artefactos =
  final_model :: 'm
  X_train_columns :: "columna list"
  manufacturer_target_encoding :: "categoria \<rightharpoonup> 'f valor"
  paint_color_target_encoding :: "categoria \<rightharpoonup> 'f valor"
  state_target_encoding :: "categoria \<rightharpoonup> 'f valor"
  CylindersUnique :: "categoria list"
  FuelUnique :: "categoria list"
  TransmissionUnique :: "categoria list"
  DriveUnique :: "categoria list"
  SizeUnique :: "categoria list"
  ANO_ACTUAL :: int

text \<open>
  Exceptions are values. Only the classes the handlers of \<open>app.py\<close> tell apart are
  distinguished; each carries the text of \<open>str(e)\<close>.
\<close>

datatype exn =
    FileNotFoundError string
  | XGBoostError string
  | KeyError "string list"
  | OtraExcepcion string


section \<open>Part 2: the encoder\<close>

text \<open>\<open>d.get(k, default)\<close> on a dictionary.\<close>

definition dict_get :: "('clave \<rightharpoonup> 'v) \<Rightarrow> 'clave \<Rightarrow> 'v \<Rightarrow> 'v" where
  "dict_get d k default_value = (case d k of None \<Rightarrow> default_value | Some v \<Rightarrow> v)"

text \<open>
  The nested helper \<open>activar_ohe\<close> (lines 95-98). It closes over \<open>datos\<close> and mutates
  it; here the dictionary is passed in and returned.
  \<^verbatim>\<open>
    def activar_ohe(feature_name, selected_value):
        col_name = f'{feature_name}_{selected_value}'
        if col_name in datos:
             datos[col_name] = 1
  \<close>
\<close>

definition activar_ohe ::
  "string \<Rightarrow> categoria \<Rightarrow> (columna \<rightharpoonup> 'f valor) \<Rightarrow> (columna \<rightharpoonup> 'f valor)" where
  "activar_ohe feature_name selected_value datos =
     (let col_name = feature_name @ ''_'' @ selected_value
      in (case datos col_name of
            None \<Rightarrow> datos
          | Some _ \<Rightarrow> datos(col_name \<mapsto> Ent 1)))"

text \<open>
  \<open>pd.DataFrame([datos])[X_train_columns]\<close> (line 120): a one-row frame whose columns
  are the keys of \<open>datos\<close>, projected onto the listed columns in the listed order. A
  listed name may repeat, and then the column repeats; a listed name that is not a key raises
  \<open>KeyError\<close>, which reports each missing name once, in the order of the list.
\<close>

fun fila_df :: "(columna \<rightharpoonup> 'v) \<Rightarrow> columna list \<Rightarrow> (columna \<times> 'v) list option" where
  "fila_df datos [] = Some []"
| "fila_df datos (col # cols) =
     (case datos col of
        None \<Rightarrow> None
      | Some v \<Rightarrow> map_option ((#) (col, v)) (fila_df datos cols))"

definition seleccionar_columnas ::
  "(columna \<rightharpoonup> 'v) \<Rightarrow> columna list \<Rightarrow> exn + (columna \<times> 'v) list" where
  "seleccionar_columnas datos cols =
     (case fila_df datos cols of
        None \<Rightarrow> Inl (KeyError (rev (remdups (rev (filter (\<lambda>col. datos col = None) cols)))))
      | Some fila \<Rightarrow> Inr fila)"

text \<open>
  The encoder up to the row it builds (lines 75-120). The globals it reads
  (\<open>ANO_ACTUAL\<close> and the three target-encoding tables) come from the record of loaded
  artefacts \<open>a\<close>; the schema is the explicit parameter, as in the source. The result is
  the row \<open>X_nuevo\<close>: the list of (column name, value) pairs in the order of the frame's
  columns, or the exception raised. The two steps that follow, \<open>xgb.DMatrix(X_nuevo)\<close>
  of line 123 and the decorator \<open>@st.cache_data\<close> of line 69, are calls into libraries;
  they are modelled after the loader, as \<open>codificar_X_dmatrix\<close> and
  \<open>codificar_datos_para_modelo_cache\<close>. The single-precision storage inside the
  \<open>DMatrix\<close> is not modelled.
\<close>

definition codificar_datos_para_modelo ::
  "('m, 'f) artefactos \<Rightarrow> int \<Rightarrow> int \<Rightarrow> categoria \<Rightarrow> categoria \<Rightarrow> categoria \<Rightarrow>
     categoria \<Rightarrow> categoria \<Rightarrow> categoria \<Rightarrow> categoria \<Rightarrow> categoria \<Rightarrow>
     columna list \<Rightarrow> exn + (columna \<times> 'f valor) list" where
  "codificar_datos_para_modelo a odometer year manufacturer paint_color state
       cylinders fuel transmission drive size' X_train_columns' =
     (let age = ANO_ACTUAL a - year;
          manufacturer_encoded = dict_get (manufacturer_target_encoding a) manufacturer (Ent 0);
          paint_color_encoded = dict_get (paint_color_target_encoding a) paint_color (Ent 0);
          state_encoded = dict_get (state_target_encoding a) state (Ent 0);
          datos = foldl (\<lambda>d col. d(col \<mapsto> Ent 0)) Map.empty X_train_columns';
          datos = datos(''odometer'' \<mapsto> Ent odometer,
                        ''age'' \<mapsto> Ent age,
                        ''manufacturer_encoded'' \<mapsto> manufacturer_encoded,
                        ''paint_color_encoded'' \<mapsto> paint_color_encoded,
                        ''state_encoded'' \<mapsto> state_encoded);
          datos = activar_ohe ''cylinders'' cylinders datos;
          datos = activar_ohe ''fuel'' fuel datos;
          datos = (if transmission \<noteq> ''automatic''
                   then activar_ohe ''transmission'' transmission datos else datos);
          datos = (if drive \<noteq> ''awd''
                   then activar_ohe ''drive'' drive datos else datos);
          datos = activar_ohe ''size'' size' datos
      in seleccionar_columnas datos X_train_columns')"


section \<open>Part 1: loading the artefacts\<close>

text \<open>
  What each library call of the \<open>try\<close> block does in one run of the script: it returns
  the object stored in the file or raises. A missing \<open>.joblib\<close> file makes
  \<open>joblib.load\<close> raise \<open>FileNotFoundError\<close>; a file that cannot be unpickled makes
  it raise some other exception; \<open>Booster.load_model\<close> reports its failures as
  \<open>XGBoostError\<close>.
\<close>

record ('m, 'f) entorno =
  load_model :: "exn + 'm"
  load_X_train_columns :: "exn + columna list"
  load_manufacturer_target_encoding :: "exn + (categoria \<rightharpoonup> 'f valor)"
  load_paint_color_target_encoding :: "exn + (categoria \<rightharpoonup> 'f valor)"
  load_state_target_encoding :: "exn + (categoria \<rightharpoonup> 'f valor)"
  load_CylindersUnique :: "exn + categoria list"
  load_FuelUnique :: "exn + categoria list"
  load_TransmissionUnique :: "exn + categoria list"
  load_DriveUnique :: "exn + categoria list"
  load_SizeUnique :: "exn + categoria list"
  load_ANO_ACTUAL :: "exn + int"

definition MODEL_PATH :: string where
  "MODEL_PATH = ''../models/hiper_xgboost_50iter_42.json''"

text \<open>Sequencing inside a \<open>try\<close> block: the first exception ends the block.\<close>

definition luego :: "exn + 'a \<Rightarrow> ('a \<Rightarrow> exn + 'b) \<Rightarrow> exn + 'b" where
  "luego r k = (case r of Inl e \<Rightarrow> Inl e | Inr v \<Rightarrow> k v)"

text \<open>
  The inner \<open>try\<close> (lines 36-40): a bare \<open>except:\<close> catches every exception.
  \<^verbatim>\<open>
    try:
        ANO_ACTUAL = joblib.load('ANO_ACTUAL.joblib')
    except:
        ANO_ACTUAL = 2024
  \<close>
\<close>

definition cargar_ANO_ACTUAL :: "exn + int \<Rightarrow> int" where
  "cargar_ANO_ACTUAL r = (case r of Inl _ \<Rightarrow> 2024 | Inr v \<Rightarrow> v)"

text \<open>
  The body of the outer \<open>try\<close> (lines 15-45), in the order of the source. Lines 43-45
  only list the keys of the three tables for the form and cannot raise on a dictionary; they
  bind no name the encoder reads and are left out of the record.
\<close>

definition cuerpo_try :: "('m, 'f) entorno \<Rightarrow> exn + ('m, 'f) artefactos" where
  "cuerpo_try env =
     luego (load_model env) (\<lambda>v_model.
     luego (load_X_train_columns env) (\<lambda>v_columns.
     luego (load_manufacturer_target_encoding env) (\<lambda>v_manufacturer.
     luego (load_paint_color_target_encoding env) (\<lambda>v_paint_color.
     luego (load_state_target_encoding env) (\<lambda>v_state.
     luego (load_CylindersUnique env) (\<lambda>v_cylinders.
     luego (load_FuelUnique env) (\<lambda>v_fuel.
     luego (load_TransmissionUnique env) (\<lambda>v_transmission.
     luego (load_DriveUnique env) (\<lambda>v_drive.
     luego (load_SizeUnique env) (\<lambda>v_size.
       Inr \<lparr> final_model = v_model,
             X_train_columns = v_columns,
             manufacturer_target_encoding = v_manufacturer,
             paint_color_target_encoding = v_paint_color,
             state_target_encoding = v_state,
             CylindersUnique = v_cylinders,
             FuelUnique = v_fuel,
             TransmissionUnique = v_transmission,
             DriveUnique = v_drive,
             SizeUnique = v_size,
             ANO_ACTUAL = cargar_ANO_ACTUAL (load_ANO_ACTUAL env) \<rparr>))))))))))"

text \<open>
  The two handlers (lines 47-62). Each shows a banner with \<open>st.error\<close> and ends the
  script run with \<open>st.stop()\<close>. The banner is recorded by the values interpolated into
  it: the first handler prints \<open>MODEL_PATH\<close> and \<open>Falta: {e}\<close>, the second
  \<open>MODEL_PATH\<close> and \<open>{e}\<close>; the fixed wording is not reproduced. The first handler
  prints the path made absolute, and the file name of \<open>{e}\<close> a second time, joined to
  the working directory; the working directory is not modelled, so the banner keeps the
  path as the constant and the exception text once. An exception of any other class matches
  no handler and leaves the script.
\<close>

datatype mensaje =
    ErrorArchivo string string
  | ErrorModelo string string

datatype ('m, 'f) arranque =
    Cargado "('m, 'f) artefactos"
  | Detenido mensaje
  | NoCapturada exn

definition cargar_artefactos :: "('m, 'f) entorno \<Rightarrow> ('m, 'f) arranque" where
  "cargar_artefactos env =
     (case cuerpo_try env of
        Inr a \<Rightarrow> Cargado a
      | Inl (FileNotFoundError s) \<Rightarrow> Detenido (ErrorArchivo MODEL_PATH s)
      | Inl (XGBoostError s) \<Rightarrow> Detenido (ErrorModelo MODEL_PATH s)
      | Inl e \<Rightarrow> NoCapturada e)"


section \<open>The end of the encoder: the library calls\<close>

text \<open>
  After the row \<open>X_nuevo\<close> the encoder calls into two libraries: line 123 wraps the row
  with \<open>xgb.DMatrix\<close>, and the decorator \<open>@st.cache_data\<close> of line 69 stores the
  returned object in Streamlit's cache before handing it to the caller. Neither library is
  part of the repository, so what the two calls do is a parameter of the model:
  \<open>xgb_DMatrix\<close> returns the wrapped object or raises, and \<open>cache_data_guardar\<close>
  is the write of the return value into the cache, which raises or does not.
\<close>

record ('f, 'dm) bibliotecas =
  xgb_DMatrix :: "(columna \<times> 'f valor) list \<Rightarrow> exn + 'dm"
  cache_data_guardar :: "'dm \<Rightarrow> exn option"

text \<open>
  The function as it is written (lines 70-125): the row, then
  \<open>X_dmatrix = xgb.DMatrix(X_nuevo)\<close>, then \<open>return X_dmatrix\<close>.
\<close>

definition codificar_X_dmatrix ::
  "('f, 'dm) bibliotecas \<Rightarrow> ('m, 'f) artefactos \<Rightarrow> int \<Rightarrow> int \<Rightarrow>
     categoria \<Rightarrow> categoria \<Rightarrow> categoria \<Rightarrow> categoria \<Rightarrow> categoria \<Rightarrow>
     categoria \<Rightarrow> categoria \<Rightarrow> categoria \<Rightarrow> columna list \<Rightarrow> exn + 'dm" where
  "codificar_X_dmatrix lib a odometer year manufacturer paint_color state
       cylinders fuel transmission drive size' X_train_columns' =
     luego (codificar_datos_para_modelo a odometer year manufacturer paint_color state
              cylinders fuel transmission drive size' X_train_columns')
           (\<lambda>X_nuevo. xgb_DMatrix lib X_nuevo)"

text \<open>
  The decorator, on a call whose arguments are not yet in the cache, which is every call
  until a write succeeds: the function runs, an exception of the function passes through,
  and a returned value is written to the cache before it is returned. All arguments of the
  encoder are integers, strings and a list of strings, which the decorator can hash.
\<close>

definition st_cache_data :: "('f, 'dm) bibliotecas \<Rightarrow> exn + 'dm \<Rightarrow> exn + 'dm" where
  "st_cache_data lib resultado =
     (case resultado of
        Inl e \<Rightarrow> Inl e
      | Inr valor_devuelto \<Rightarrow>
          (case cache_data_guardar lib valor_devuelto of
             Some e \<Rightarrow> Inl e
           | None \<Rightarrow> Inr valor_devuelto))"

text \<open>
  The encoder as the script calls it at line 244: the decorated function.
\<close>

definition codificar_datos_para_modelo_cache ::
  "('f, 'dm) bibliotecas \<Rightarrow> ('m, 'f) artefactos \<Rightarrow> int \<Rightarrow> int \<Rightarrow>
     categoria \<Rightarrow> categoria \<Rightarrow> categoria \<Rightarrow> categoria \<Rightarrow> categoria \<Rightarrow>
     categoria \<Rightarrow> categoria \<Rightarrow> categoria \<Rightarrow> columna list \<Rightarrow> exn + 'dm" where
  "codificar_datos_para_modelo_cache lib a odometer year manufacturer paint_color state
       cylinders fuel transmission drive size' X_train_columns' =
     st_cache_data lib
       (codificar_X_dmatrix lib a odometer year manufacturer paint_color state
          cylinders fuel transmission drive size' X_train_columns')"

text \<open>
  What the installed libraries do with these calls, as far as the statements below need it.
  \<^item> pandas gives a column the dtype \<open>object\<close> when it holds an integer that fits neither
    a signed nor an unsigned 64-bit integer, and \<open>xgb.DMatrix\<close> rejects a frame with an
    \<open>object\<close> column with a \<open>ValueError\<close>.
  \<^item> \<open>xgb.DMatrix\<close> rejects repeated feature names with a \<open>ValueError\<close>.
  \<^item> Writing to the cache of \<open>st.cache_data\<close> pickles the value; a \<open>DMatrix\<close>
    holds a ctypes handle, and pickling it raises a \<open>ValueError\<close>.

  Other reasons for which the constructor may reject a frame are not listed; the definition
  is used below only to show calls that raise, and one call with small numbers and distinct
  names that the constructor accepts. The exceptions are of a class without a handler of its
  own in the script, hence \<open>OtraExcepcion\<close>, with the class name in the text.
\<close>

datatype 'f dmatrix = DMatrix "(columna \<times> 'f valor) list"

definition columna_object :: "'f valor \<Rightarrow> bool" where
  "columna_object x =
     (case x of
        Ent n \<Rightarrow> n < - (2 ^ 63) \<or> 2 ^ 64 \<le> n
      | Flt _ \<Rightarrow> False)"

definition xgb_DMatrix_instalado :: "(columna \<times> 'f valor) list \<Rightarrow> exn + 'f dmatrix" where
  "xgb_DMatrix_instalado X_nuevo =
     (if filter (\<lambda>(col, x). columna_object x) X_nuevo \<noteq> []
      then Inl (OtraExcepcion
             ''ValueError: DataFrame.dtypes for data must be int, float, bool or category'')
      else if \<not> distinct (map fst X_nuevo)
      then Inl (OtraExcepcion ''ValueError: feature_names must be unique'')
      else Inr (DMatrix X_nuevo))"

definition cache_data_guardar_instalado :: "'f dmatrix \<Rightarrow> exn option" where
  "cache_data_guardar_instalado X_dmatrix =
     Some (OtraExcepcion
       ''ValueError: ctypes objects containing pointers cannot be pickled'')"

definition bibliotecas_instaladas :: "('f, 'f dmatrix) bibliotecas" where
  "bibliotecas_instaladas =
     \<lparr> xgb_DMatrix = xgb_DMatrix_instalado,
       cache_data_guardar = cache_data_guardar_instalado \<rparr>"


section \<open>Reference values for the statements\<close>

text \<open>
  The value the encoding contract assigns to a column name, written as one expression: 1 for
  a column that a one-hot step activates, the numeric inputs and table look-ups for the five
  numeric columns, 0 otherwise. It is not part of the program; lemma
  \<open>codificar_forma_cerrada\<close> below shows that the program computes it.
\<close>

definition valor_columna ::
  "('m, 'f) artefactos \<Rightarrow> int \<Rightarrow> int \<Rightarrow> categoria \<Rightarrow> categoria \<Rightarrow> categoria \<Rightarrow>
     categoria \<Rightarrow> categoria \<Rightarrow> categoria \<Rightarrow> categoria \<Rightarrow> categoria \<Rightarrow>
     columna \<Rightarrow> 'f valor" where
  "valor_columna a odometer year manufacturer paint_color state
       cylinders fuel transmission drive size' col =
     (if col = ''cylinders_'' @ cylinders \<or> col = ''fuel_'' @ fuel
         \<or> (transmission \<noteq> ''automatic'' \<and> col = ''transmission_'' @ transmission)
         \<or> (drive \<noteq> ''awd'' \<and> col = ''drive_'' @ drive)
         \<or> col = ''size_'' @ size' then Ent 1
      else if col = ''odometer'' then Ent odometer
      else if col = ''age'' then Ent (ANO_ACTUAL a - year)
      else if col = ''manufacturer_encoded''
        then dict_get (manufacturer_target_encoding a) manufacturer (Ent 0)
      else if col = ''paint_color_encoded''
        then dict_get (paint_color_target_encoding a) paint_color (Ent 0)
      else if col = ''state_encoded''
        then dict_get (state_target_encoding a) state (Ent 0)
      else Ent 0)"

text \<open>
  For the loader: the outcome of a single load as the exception it raised, if any, and the
  exception of the first required load that raises, in the order of the source. The
  reference-year file is not in the list: its \<open>try\<close> is nested (lines 36-40).
\<close>

definition fallo :: "exn + 'a \<Rightarrow> exn option" where
  "fallo r = (case r of Inl e \<Rightarrow> Some e | Inr _ \<Rightarrow> None)"

definition primera_excepcion :: "('m, 'f) entorno \<Rightarrow> exn option" where
  "primera_excepcion env =
     (case filter (\<lambda>x. x \<noteq> None)
        [fallo (load_model env),
         fallo (load_X_train_columns env),
         fallo (load_manufacturer_target_encoding env),
         fallo (load_paint_color_target_encoding env),
         fallo (load_state_target_encoding env),
         fallo (load_CylindersUnique env),
         fallo (load_FuelUnique env),
         fallo (load_TransmissionUnique env),
         fallo (load_DriveUnique env),
         fallo (load_SizeUnique env)] of
        [] \<Rightarrow> None
      | x # _ \<Rightarrow> x)"

text \<open>
  The text of the \<open>FileNotFoundError\<close> that opening a missing file raises; the file
  name appears in it between single quotes.
\<close>

definition no_such_file :: "string \<Rightarrow> exn" where
  "no_such_file name =
     FileNotFoundError (''[Errno 2] No such file or directory: ''
                         @ [CHR 0x27] @ name @ [CHR 0x27])"


section \<open>A concrete deployment\<close>

text \<open>
  A small set of artefacts of the shape the training step produces: one-hot columns with the
  first level of each field dropped, three target-encoding tables, the category lists shown
  in the form, and the reference year. It is used to run the definitions on concrete inputs.
\<close>

definition a_ejemplo :: "(unit, real) artefactos" where
  "a_ejemplo =
     \<lparr> final_model = (),
       X_train_columns =
         [''odometer'', ''age'', ''manufacturer_encoded'', ''paint_color_encoded'',
          ''state_encoded'', ''cylinders_6 cylinders'', ''cylinders_8 cylinders'',
          ''fuel_gas'', ''transmission_manual'', ''drive_fwd'', ''drive_rwd'',
          ''size_mid-size''],
       manufacturer_target_encoding =
         Map.empty(''ford'' \<mapsto> Flt 18250.5, ''toyota'' \<mapsto> Flt 16100),
       paint_color_target_encoding =
         Map.empty(''white'' \<mapsto> Flt 17400.25, ''black'' \<mapsto> Flt 18020),
       state_target_encoding =
         Map.empty(''ca'' \<mapsto> Flt 17990, ''tx'' \<mapsto> Flt 18310.75),
       CylindersUnique = [''4 cylinders'', ''6 cylinders'', ''8 cylinders''],
       FuelUnique = [''diesel'', ''gas''],
       TransmissionUnique = [''automatic'', ''manual''],
       DriveUnique = [''awd'', ''fwd'', ''rwd''],
       SizeUnique = [''compact'', ''mid-size''],
       ANO_ACTUAL = 2024 \<rparr>"

text \<open>
  A run in which every file of that deployment loads. The reference-year file holds 2025,
  so that a loaded year can be told apart from the fallback 2024 of \<open>a_ejemplo\<close>.
\<close>

definition env_ejemplo :: "(unit, real) entorno" where
  "env_ejemplo =
     \<lparr> load_model = Inr (final_model a_ejemplo),
       load_X_train_columns = Inr (X_train_columns a_ejemplo),
       load_manufacturer_target_encoding = Inr (manufacturer_target_encoding a_ejemplo),
       load_paint_color_target_encoding = Inr (paint_color_target_encoding a_ejemplo),
       load_state_target_encoding = Inr (state_target_encoding a_ejemplo),
       load_CylindersUnique = Inr (CylindersUnique a_ejemplo),
       load_FuelUnique = Inr (FuelUnique a_ejemplo),
       load_TransmissionUnique = Inr (TransmissionUnique a_ejemplo),
       load_DriveUnique = Inr (DriveUnique a_ejemplo),
       load_SizeUnique = Inr (SizeUnique a_ejemplo),
       load_ANO_ACTUAL = Inr 2025 \<rparr>"


section \<open>The encoder in closed form\<close>

text \<open>
  The dictionary comprehension maps exactly the schema columns to 0; a
  one-hot step changes only the entry of its own column name, and only if it is present; the
  projection succeeds when every listed column is a key.
\<close>

lemma foldl_ceros:
  "foldl (\<lambda>d col. d(col \<mapsto> v)) m cols c = (if c \<in> set cols then Some v else m c)"
  by (induction cols arbitrary: m) auto

lemma activar_ohe_Some:
  "d c = Some x \<Longrightarrow>
   activar_ohe f v d c = Some (if c = f @ ''_'' @ v then Ent 1 else x)"
  by (auto simp: activar_ohe_def Let_def split: option.splits)

lemma fila_df_total:
  "(\<And>c. c \<in> set cols \<Longrightarrow> d c = Some (g c)) \<Longrightarrow> fila_df d cols = Some (map (\<lambda>c. (c, g c)) cols)"
  by (induction cols) auto

lemma seleccionar_columnas_total:
  assumes "\<And>c. c \<in> set cols \<Longrightarrow> d c = Some (g c)"
  shows "seleccionar_columnas d cols = Inr (map (\<lambda>c. (c, g c)) cols)"
  using fila_df_total [of cols d g, OF assms] by (simp add: seleccionar_columnas_def)

lemma codificar_forma_cerrada:
  fixes a :: "('m, 'f) artefactos"
  shows
  "codificar_datos_para_modelo a odometer year manufacturer paint_color state
       cylinders fuel transmission drive size' cols =
   Inr (map (\<lambda>col. (col, valor_columna a odometer year manufacturer paint_color state
       cylinders fuel transmission drive size' col)) cols)"
proof -
  define d0 :: "string \<rightharpoonup> 'f valor"
    where "d0 = foldl (\<lambda>d col. d(col \<mapsto> Ent 0)) Map.empty cols"
  define d1 where "d1 = d0(''odometer'' \<mapsto> Ent odometer,
       ''age'' \<mapsto> Ent (ANO_ACTUAL a - year),
       ''manufacturer_encoded'' \<mapsto> dict_get (manufacturer_target_encoding a) manufacturer (Ent 0),
       ''paint_color_encoded'' \<mapsto> dict_get (paint_color_target_encoding a) paint_color (Ent 0),
       ''state_encoded'' \<mapsto> dict_get (state_target_encoding a) state (Ent 0))"
  define d2 where "d2 = activar_ohe ''cylinders'' cylinders d1"
  define d3 where "d3 = activar_ohe ''fuel'' fuel d2"
  define d4 where "d4 = (if transmission \<noteq> ''automatic''
                   then activar_ohe ''transmission'' transmission d3 else d3)"
  define d5 where "d5 = (if drive \<noteq> ''awd'' then activar_ohe ''drive'' drive d4 else d4)"
  define d6 where "d6 = activar_ohe ''size'' size' d5"
  define num where "num = (\<lambda>col.
      if col = ''odometer'' then Ent odometer
      else if col = ''age'' then Ent (ANO_ACTUAL a - year)
      else if col = ''manufacturer_encoded''
        then dict_get (manufacturer_target_encoding a) manufacturer (Ent 0)
      else if col = ''paint_color_encoded''
        then dict_get (paint_color_target_encoding a) paint_color (Ent 0)
      else if col = ''state_encoded''
        then dict_get (state_target_encoding a) state (Ent 0)
      else Ent 0)"
  have "d6 c = Some (valor_columna a odometer year manufacturer paint_color state
       cylinders fuel transmission drive size' c)" if c: "c \<in> set cols" for c
  proof -
    have s0: "d0 c = Some (Ent 0)"
      using c by (simp add: d0_def foldl_ceros)
    have s1: "d1 c = Some (num c)"
      using s0 by (simp add: d1_def num_def)
    have s2: "d2 c = Some (if c = ''cylinders'' @ ''_'' @ cylinders then Ent 1 else num c)"
      unfolding d2_def by (rule activar_ohe_Some [where d = d1 and c = c, OF s1])
    have s3: "d3 c = Some (if c = ''fuel'' @ ''_'' @ fuel then Ent 1
        else if c = ''cylinders'' @ ''_'' @ cylinders then Ent 1 else num c)"
      unfolding d3_def by (rule activar_ohe_Some [where d = d2 and c = c, OF s2])
    have s4: "d4 c = Some (if transmission \<noteq> ''automatic'' \<and> c = ''transmission'' @ ''_'' @ transmission
        then Ent 1
        else if c = ''fuel'' @ ''_'' @ fuel then Ent 1
        else if c = ''cylinders'' @ ''_'' @ cylinders then Ent 1 else num c)"
      unfolding d4_def using activar_ohe_Some [where d = d3 and c = c, OF s3, of "''transmission''" transmission] s3
      by (simp del: append.simps)
    have s5: "d5 c = Some (if drive \<noteq> ''awd'' \<and> c = ''drive'' @ ''_'' @ drive then Ent 1
        else if transmission \<noteq> ''automatic'' \<and> c = ''transmission'' @ ''_'' @ transmission
        then Ent 1
        else if c = ''fuel'' @ ''_'' @ fuel then Ent 1
        else if c = ''cylinders'' @ ''_'' @ cylinders then Ent 1 else num c)"
      unfolding d5_def using activar_ohe_Some [where d = d4 and c = c, OF s4, of "''drive''" drive] s4
      by (simp del: append.simps)
    have s6: "d6 c = Some (if c = ''size'' @ ''_'' @ size' then Ent 1
        else if drive \<noteq> ''awd'' \<and> c = ''drive'' @ ''_'' @ drive then Ent 1
        else if transmission \<noteq> ''automatic'' \<and> c = ''transmission'' @ ''_'' @ transmission
        then Ent 1
        else if c = ''fuel'' @ ''_'' @ fuel then Ent 1
        else if c = ''cylinders'' @ ''_'' @ cylinders then Ent 1 else num c)"
      unfolding d6_def by (rule activar_ohe_Some [where d = d5 and c = c, OF s5])
    show ?thesis
      unfolding s6 valor_columna_def num_def by simp
  qed
  then have "seleccionar_columnas d6 cols =
      Inr (map (\<lambda>col. (col, valor_columna a odometer year manufacturer paint_color state
       cylinders fuel transmission drive size' col)) cols)"
    by (rule seleccionar_columnas_total)
  then show ?thesis
    unfolding codificar_datos_para_modelo_def Let_def d6_def d5_def d4_def d3_def d2_def d1_def d0_def .
qed

text \<open>
  Within the columns of one one-hot field (those whose name starts with the field name and
  an underscore) the closed form reduces to: 1 on the column of the supplied value, 0 on
  every other. The five prefixes differ in their first letter, and none of them starts one
  of the five numeric column names, so the steps never touch each other's columns.
\<close>

lemma contar_unos:
  "length (filter (\<lambda>(col, x). P col \<and> x = Ent 1) (map (\<lambda>col. (col, if col = k then Ent 1 else Ent 0)) cols))
   = (if P k then count_list cols k else 0)"
  by (induction cols) auto

lemma valor_columna_campo:
  assumes campo: "(f, v) \<in> {(''cylinders'', cylinders), (''fuel'', fuel),
                      (''transmission'', transmission), (''drive'', drive), (''size'', size')}"
    and base: "(f, v) \<noteq> (''transmission'', ''automatic'')" "(f, v) \<noteq> (''drive'', ''awd'')"
    and pre: "prefix (f @ ''_'') col"
  shows "valor_columna a odometer year manufacturer paint_color state
       cylinders fuel transmission drive size' col = (if col = f @ ''_'' @ v then Ent 1 else Ent 0)"
proof -
  from pre obtain zs where col: "col = f @ ''_'' @ zs"
    by (auto elim: prefixE)
  from campo have "f = ''cylinders'' \<and> v = cylinders \<or> f = ''fuel'' \<and> v = fuel
      \<or> f = ''transmission'' \<and> v = transmission \<or> f = ''drive'' \<and> v = drive
      \<or> f = ''size'' \<and> v = size'"
    by simp
  then show ?thesis
  proof (elim disjE conjE)
    assume "f = ''cylinders''" "v = cylinders"
    then show ?thesis by (simp add: col valor_columna_def)
  next
    assume "f = ''fuel''" "v = fuel"
    then show ?thesis by (simp add: col valor_columna_def)
  next
    assume *: "f = ''transmission''" "v = transmission"
    with base have "transmission \<noteq> ''automatic''" by simp
    with * show ?thesis by (simp add: col valor_columna_def)
  next
    assume *: "f = ''drive''" "v = drive"
    with base have "drive \<noteq> ''awd''" by simp
    with * show ?thesis by (simp add: col valor_columna_def)
  next
    assume "f = ''size''" "v = size'"
    then show ?thesis by (simp add: col valor_columna_def)
  qed
qed

lemma filas_campo:
  assumes "\<And>col. P col \<Longrightarrow> g col = (if col = k then Ent 1 else Ent 0)"
  shows "filter (\<lambda>(col, x). P col \<and> x = Ent 1) (map (\<lambda>col. (col, g col)) cols)
       = filter (\<lambda>(col, x). P col \<and> x = Ent 1)
           (map (\<lambda>col. (col, if col = k then Ent 1 else Ent 0)) cols)"
  by (induction cols) (simp_all add: assms)

text \<open>
  The loader against the list of required loads: the body of the \<open>try\<close> raises the
  first exception in source order, and returns a record only when every required load
  returned.
\<close>

lemma cuerpo_try_Inl:
  "primera_excepcion env = Some e \<Longrightarrow> cuerpo_try env = Inl e"
  by (simp add: primera_excepcion_def cuerpo_try_def luego_def fallo_def
           split: sum.splits)

lemma cuerpo_try_Inr:
  "cuerpo_try env = Inr a \<Longrightarrow>
     load_model env = Inr (final_model a)
   \<and> load_X_train_columns env = Inr (X_train_columns a)
   \<and> load_manufacturer_target_encoding env = Inr (manufacturer_target_encoding a)
   \<and> load_paint_color_target_encoding env = Inr (paint_color_target_encoding a)
   \<and> load_state_target_encoding env = Inr (state_target_encoding a)
   \<and> load_CylindersUnique env = Inr (CylindersUnique a)
   \<and> load_FuelUnique env = Inr (FuelUnique a)
   \<and> load_TransmissionUnique env = Inr (TransmissionUnique a)
   \<and> load_DriveUnique env = Inr (DriveUnique a)
   \<and> load_SizeUnique env = Inr (SizeUnique a)
   \<and> ANO_ACTUAL a = cargar_ANO_ACTUAL (load_ANO_ACTUAL env)"
  by (auto simp add: cuerpo_try_def luego_def split: sum.splits)

lemma cuerpo_try_None:
  "primera_excepcion env = None \<Longrightarrow> \<exists>a. cuerpo_try env = Inr a"
  by (simp add: primera_excepcion_def cuerpo_try_def luego_def fallo_def
           split: sum.splits)

lemma cargar_artefactos_Cargado:
  "cargar_artefactos env = Cargado a \<longleftrightarrow> cuerpo_try env = Inr a"
  by (simp add: cargar_artefactos_def split: sum.splits exn.splits)


section \<open>Properties of the encoder\<close>

text \<open>
  C1. For every input tuple the encoder returns a row, and the column names of the row are
  exactly the schema \<open>X_train_columns\<close>, in the schema's order (repeated names
  included), whatever category values were supplied.
\<close>

theorem C1_columnas_del_esquema:
  "\<exists>fila. codificar_datos_para_modelo a odometer year manufacturer paint_color state
              cylinders fuel transmission drive size' cols = Inr fila
          \<and> map fst fila = cols"
  by (simp add: codificar_forma_cerrada comp_def)

text \<open>
  C2. For a manufacturer, a paint colour and a state that are keys of their target-encoding
  tables, every column of the row named \<open>manufacturer_encoded\<close>,
  \<open>paint_color_encoded\<close>, \<open>state_encoded\<close> holds exactly the value stored in the
  table for that key. The row has the schema's columns, so each of the three columns is in
  the row whenever the schema lists it.
\<close>

theorem C2_valores_de_tabla:
  "\<exists>fila. codificar_datos_para_modelo a odometer year manufacturer paint_color state
              cylinders fuel transmission drive size' cols = Inr fila
     \<and> map fst fila = cols
     \<and> (manufacturer_target_encoding a manufacturer = Some vm \<longrightarrow>
          (\<forall>(col, x) \<in> set fila. col = ''manufacturer_encoded'' \<longrightarrow> x = vm))
     \<and> (paint_color_target_encoding a paint_color = Some vp \<longrightarrow>
          (\<forall>(col, x) \<in> set fila. col = ''paint_color_encoded'' \<longrightarrow> x = vp))
     \<and> (state_target_encoding a state = Some vs \<longrightarrow>
          (\<forall>(col, x) \<in> set fila. col = ''state_encoded'' \<longrightarrow> x = vs))"
  by (auto simp: codificar_forma_cerrada comp_def valor_columna_def dict_get_def)

theorem C2_valores_de_tabla_witness:
  "manufacturer_target_encoding a_ejemplo ''ford'' = Some (Flt 18250.5)
   \<and> paint_color_target_encoding a_ejemplo ''white'' = Some (Flt 17400.25)
   \<and> state_target_encoding a_ejemplo ''ca'' = Some (Flt 17990)
   \<and> codificar_datos_para_modelo a_ejemplo 50000 2019 ''ford'' ''white'' ''ca''
        ''6 cylinders'' ''gas'' ''automatic'' ''fwd'' ''mid-size'' (X_train_columns a_ejemplo)
      = Inr [(''odometer'', Ent 50000), (''age'', Ent 5),
             (''manufacturer_encoded'', Flt 18250.5), (''paint_color_encoded'', Flt 17400.25),
             (''state_encoded'', Flt 17990), (''cylinders_6 cylinders'', Ent 1),
             (''cylinders_8 cylinders'', Ent 0), (''fuel_gas'', Ent 1),
             (''transmission_manual'', Ent 0), (''drive_fwd'', Ent 1), (''drive_rwd'', Ent 0),
             (''size_mid-size'', Ent 1)]"
  using C2_valores_de_tabla [of a_ejemplo 50000 2019 "''ford''" "''white''" "''ca''"
        "''6 cylinders''" "''gas''" "''automatic''" "''fwd''" "''mid-size''"
        "X_train_columns a_ejemplo" "Flt 18250.5" "Flt 17400.25" "Flt 17990"]
  by (simp add: a_ejemplo_def codificar_datos_para_modelo_def dict_get_def activar_ohe_def
        seleccionar_columnas_def)

text \<open>
  C3, as the program has it. Let \<open>f\<close> be one of the five one-hot fields and \<open>v\<close>
  the value supplied for it, other than the baseline of \<open>transmission\<close>
  (\<open>automatic\<close>) and of \<open>drive\<close> (\<open>awd\<close>). Among the columns of the row whose
  name starts with \<open>f_\<close>, those named \<open>f_v\<close> hold 1 and all the others hold 0; and the
  number of columns of field \<open>f\<close> that hold 1 is the number of times the schema lists
  \<open>f_v\<close>: exactly one when the schema lists it once, none when it is not a schema
  column.
\<close>

theorem C3_un_solo_uno:
  assumes campo: "(f, v) \<in> {(''cylinders'', cylinders), (''fuel'', fuel),
                      (''transmission'', transmission), (''drive'', drive), (''size'', size')}"
    and base: "(f, v) \<noteq> (''transmission'', ''automatic'')" "(f, v) \<noteq> (''drive'', ''awd'')"
  shows "\<exists>fila. codificar_datos_para_modelo a odometer year manufacturer paint_color state
              cylinders fuel transmission drive size' cols = Inr fila
     \<and> (\<forall>(col, x) \<in> set fila. prefix (f @ ''_'') col \<longrightarrow>
           x = (if col = f @ ''_'' @ v then Ent 1 else Ent 0))
     \<and> length (filter (\<lambda>(col, x). prefix (f @ ''_'') col \<and> x = Ent 1) fila)
         = count_list cols (f @ ''_'' @ v)"
proof -
  let ?val = "valor_columna a odometer year manufacturer paint_color state
       cylinders fuel transmission drive size'"
  let ?fila = "map (\<lambda>col. (col, ?val col)) cols"
  have val: "?val col = (if col = f @ ''_'' @ v then Ent 1 else Ent 0)"
    if "prefix (f @ ''_'') col" for col
    using campo base that by (rule valor_columna_campo)
  have p: "prefix (f @ ''_'') (f @ ''_'' @ v)"
    by (simp add: prefix_def)
  have "filter (\<lambda>(col, x). prefix (f @ ''_'') col \<and> x = Ent 1) ?fila
      = filter (\<lambda>(col, x). prefix (f @ ''_'') col \<and> x = Ent 1)
          (map (\<lambda>col. (col, if col = f @ ''_'' @ v then Ent 1 else Ent 0)) cols)"
    by (rule filas_campo) (rule val)
  then have "length (filter (\<lambda>(col, x). prefix (f @ ''_'') col \<and> x = Ent 1) ?fila)
      = (if prefix (f @ ''_'') (f @ ''_'' @ v) then count_list cols (f @ ''_'' @ v) else 0)"
    by (simp only: contar_unos)
  with p have "length (filter (\<lambda>(col, x). prefix (f @ ''_'') col \<and> x = Ent 1) ?fila)
      = count_list cols (f @ ''_'' @ v)"
    by (simp only: if_True)
  moreover have "\<forall>(col, x) \<in> set ?fila. prefix (f @ ''_'') col \<longrightarrow>
           x = (if col = f @ ''_'' @ v then Ent 1 else Ent 0)"
    using val by (auto simp del: append.simps)
  ultimately show ?thesis
    unfolding codificar_forma_cerrada by blast
qed

theorem C3_un_solo_uno_witness:
  "(''drive'', ''rwd'') \<in> {(''cylinders'', ''8 cylinders''), (''fuel'', ''gas''),
        (''transmission'', ''manual''), (''drive'', ''rwd''), (''size'', ''mid-size'')}
   \<and> (''drive'', ''rwd'') \<noteq> (''transmission'', ''automatic'')
   \<and> (''drive'', ''rwd'') \<noteq> (''drive'', ''awd'')
   \<and> count_list (X_train_columns a_ejemplo) (''drive'' @ ''_'' @ ''rwd'') = 1
   \<and> codificar_datos_para_modelo a_ejemplo 120000 2012 ''toyota'' ''black'' ''tx''
        ''8 cylinders'' ''gas'' ''manual'' ''rwd'' ''mid-size'' (X_train_columns a_ejemplo)
      = Inr [(''odometer'', Ent 120000), (''age'', Ent 12),
             (''manufacturer_encoded'', Flt 16100), (''paint_color_encoded'', Flt 18020),
             (''state_encoded'', Flt 18310.75), (''cylinders_6 cylinders'', Ent 0),
             (''cylinders_8 cylinders'', Ent 1), (''fuel_gas'', Ent 1),
             (''transmission_manual'', Ent 1), (''drive_fwd'', Ent 0), (''drive_rwd'', Ent 1),
             (''size_mid-size'', Ent 1)]"
  using C3_un_solo_uno [of "''drive''" "''rwd''" "''8 cylinders''" "''gas''" "''manual''"
        "''rwd''" "''mid-size''" a_ejemplo 120000 2012 "''toyota''" "''black''" "''tx''"
        "X_train_columns a_ejemplo"]
  by (simp add: a_ejemplo_def codificar_datos_para_modelo_def dict_get_def activar_ohe_def
        seleccionar_columnas_def)

text \<open>
  The claim as the specification words it, for every value of the category list, fails:
  \<open>diesel\<close> is a value of \<open>FuelUnique\<close>, the schema has no column
  \<open>fuel_diesel\<close>, and the row has no fuel column set to 1.
\<close>

theorem C3_valor_sin_columna_counterexample:
  "''diesel'' \<in> set (FuelUnique a_ejemplo)
   \<and> ''fuel_diesel'' \<notin> set (X_train_columns a_ejemplo)
   \<and> codificar_datos_para_modelo a_ejemplo 50000 2019 ''ford'' ''white'' ''ca''
        ''6 cylinders'' ''diesel'' ''manual'' ''fwd'' ''mid-size'' (X_train_columns a_ejemplo)
      = Inr [(''odometer'', Ent 50000), (''age'', Ent 5),
             (''manufacturer_encoded'', Flt 18250.5), (''paint_color_encoded'', Flt 17400.25),
             (''state_encoded'', Flt 17990), (''cylinders_6 cylinders'', Ent 1),
             (''cylinders_8 cylinders'', Ent 0), (''fuel_gas'', Ent 0),
             (''transmission_manual'', Ent 1), (''drive_fwd'', Ent 1), (''drive_rwd'', Ent 0),
             (''size_mid-size'', Ent 1)]"
  by (simp add: a_ejemplo_def codificar_datos_para_modelo_def dict_get_def activar_ohe_def
        seleccionar_columnas_def)

text \<open>
  C4. When \<open>transmission\<close> is the baseline \<open>automatic\<close>, every column of the row
  whose name starts with \<open>transmission_\<close> holds 0; when \<open>drive\<close> is the baseline
  \<open>awd\<close>, every column whose name starts with \<open>drive_\<close> holds 0. Selecting a
  baseline sets no column of its field to 1.
\<close>

theorem C4_valor_base:
  "\<exists>fila. codificar_datos_para_modelo a odometer year manufacturer paint_color state
              cylinders fuel transmission drive size' cols = Inr fila
     \<and> (transmission = ''automatic'' \<longrightarrow>
          (\<forall>(col, x) \<in> set fila. prefix ''transmission_'' col \<longrightarrow> x = Ent 0))
     \<and> (drive = ''awd'' \<longrightarrow>
          (\<forall>(col, x) \<in> set fila. prefix ''drive_'' col \<longrightarrow> x = Ent 0))"
  by (auto simp: codificar_forma_cerrada comp_def valor_columna_def elim!: prefixE)

theorem C4_valor_base_witness:
  "prefix ''transmission_'' ''transmission_manual''
   \<and> prefix ''drive_'' ''drive_fwd'' \<and> prefix ''drive_'' ''drive_rwd''
   \<and> codificar_datos_para_modelo a_ejemplo 50000 2019 ''ford'' ''white'' ''ca''
        ''6 cylinders'' ''gas'' ''automatic'' ''awd'' ''mid-size'' (X_train_columns a_ejemplo)
      = Inr [(''odometer'', Ent 50000), (''age'', Ent 5),
             (''manufacturer_encoded'', Flt 18250.5), (''paint_color_encoded'', Flt 17400.25),
             (''state_encoded'', Flt 17990), (''cylinders_6 cylinders'', Ent 1),
             (''cylinders_8 cylinders'', Ent 0), (''fuel_gas'', Ent 1),
             (''transmission_manual'', Ent 0), (''drive_fwd'', Ent 0), (''drive_rwd'', Ent 0),
             (''size_mid-size'', Ent 1)]"
  using C4_valor_base [of a_ejemplo 50000 2019 "''ford''" "''white''" "''ca''"
        "''6 cylinders''" "''gas''" "''automatic''" "''awd''" "''mid-size''"
        "X_train_columns a_ejemplo"]
  by (simp add: a_ejemplo_def codificar_datos_para_modelo_def dict_get_def activar_ohe_def
        seleccionar_columnas_def)

text \<open>
  C6. For a manufacturer, a paint colour or a state that is not a key of its
  target-encoding table, the encoder returns a row (no exception), and every column named
  \<open>manufacturer_encoded\<close>, \<open>paint_color_encoded\<close>, \<open>state_encoded\<close>
  respectively holds 0.
\<close>

theorem C6_clave_ausente:
  "\<exists>fila. codificar_datos_para_modelo a odometer year manufacturer paint_color state
              cylinders fuel transmission drive size' cols = Inr fila
     \<and> map fst fila = cols
     \<and> (manufacturer_target_encoding a manufacturer = None \<longrightarrow>
          (\<forall>(col, x) \<in> set fila. col = ''manufacturer_encoded'' \<longrightarrow> x = Ent 0))
     \<and> (paint_color_target_encoding a paint_color = None \<longrightarrow>
          (\<forall>(col, x) \<in> set fila. col = ''paint_color_encoded'' \<longrightarrow> x = Ent 0))
     \<and> (state_target_encoding a state = None \<longrightarrow>
          (\<forall>(col, x) \<in> set fila. col = ''state_encoded'' \<longrightarrow> x = Ent 0))"
  by (auto simp: codificar_forma_cerrada comp_def valor_columna_def dict_get_def)

theorem C6_clave_ausente_witness:
  "manufacturer_target_encoding a_ejemplo ''zzz_unknown'' = None
   \<and> paint_color_target_encoding a_ejemplo ''mauve'' = None
   \<and> state_target_encoding a_ejemplo ''zz'' = None
   \<and> codificar_datos_para_modelo a_ejemplo 50000 2019 ''zzz_unknown'' ''mauve'' ''zz''
        ''6 cylinders'' ''gas'' ''automatic'' ''fwd'' ''mid-size'' (X_train_columns a_ejemplo)
      = Inr [(''odometer'', Ent 50000), (''age'', Ent 5),
             (''manufacturer_encoded'', Ent 0), (''paint_color_encoded'', Ent 0),
             (''state_encoded'', Ent 0), (''cylinders_6 cylinders'', Ent 1),
             (''cylinders_8 cylinders'', Ent 0), (''fuel_gas'', Ent 1),
             (''transmission_manual'', Ent 0), (''drive_fwd'', Ent 1), (''drive_rwd'', Ent 0),
             (''size_mid-size'', Ent 1)]"
  using C6_clave_ausente [of a_ejemplo 50000 2019 "''zzz_unknown''" "''mauve''" "''zz''"
        "''6 cylinders''" "''gas''" "''automatic''" "''fwd''" "''mid-size''"
        "X_train_columns a_ejemplo"]
  by (simp add: a_ejemplo_def codificar_datos_para_modelo_def dict_get_def activar_ohe_def
        seleccionar_columnas_def)

text \<open>
  C7, as the program has it. For every integer year the computation of the row (lines
  75-120) raises nothing, and every column of the row named \<open>age\<close> holds exactly
  \<open>ANO_ACTUAL - year\<close>, a negative number when the year is later than the reference
  year; Python integers are unbounded, and so is \<open>int\<close>. What the encoder then does is
  what the two library calls do with that row: the function as written yields
  \<open>xgb.DMatrix\<close> of the row, and the decorated function the cache write of that.
  Whether those calls return is not part of the statement.
\<close>

theorem C7_age_exacta:
  "\<exists>fila. codificar_datos_para_modelo a odometer year manufacturer paint_color state
              cylinders fuel transmission drive size' cols = Inr fila
     \<and> map fst fila = cols
     \<and> (\<forall>(col, x) \<in> set fila. col = ''age'' \<longrightarrow> x = Ent (ANO_ACTUAL a - year))
     \<and> codificar_X_dmatrix lib a odometer year manufacturer paint_color state
              cylinders fuel transmission drive size' cols = xgb_DMatrix lib fila
     \<and> codificar_datos_para_modelo_cache lib a odometer year manufacturer paint_color state
              cylinders fuel transmission drive size' cols
         = st_cache_data lib (xgb_DMatrix lib fila)"
  by (auto simp: codificar_datos_para_modelo_cache_def codificar_X_dmatrix_def luego_def
        codificar_forma_cerrada comp_def valor_columna_def)

theorem C7_age_exacta_witness:
  "ANO_ACTUAL a_ejemplo - 2030 = - 6
   \<and> codificar_datos_para_modelo a_ejemplo 0 2030 ''ford'' ''white'' ''ca''
        ''6 cylinders'' ''gas'' ''automatic'' ''fwd'' ''mid-size'' (X_train_columns a_ejemplo)
      = Inr [(''odometer'', Ent 0), (''age'', Ent (- 6)),
             (''manufacturer_encoded'', Flt 18250.5), (''paint_color_encoded'', Flt 17400.25),
             (''state_encoded'', Flt 17990), (''cylinders_6 cylinders'', Ent 1),
             (''cylinders_8 cylinders'', Ent 0), (''fuel_gas'', Ent 1),
             (''transmission_manual'', Ent 0), (''drive_fwd'', Ent 1), (''drive_rwd'', Ent 0),
             (''size_mid-size'', Ent 1)]
   \<and> codificar_X_dmatrix bibliotecas_instaladas a_ejemplo 0 2030 ''ford'' ''white'' ''ca''
        ''6 cylinders'' ''gas'' ''automatic'' ''fwd'' ''mid-size'' (X_train_columns a_ejemplo)
      = Inr (DMatrix [(''odometer'', Ent 0), (''age'', Ent (- 6)),
             (''manufacturer_encoded'', Flt 18250.5), (''paint_color_encoded'', Flt 17400.25),
             (''state_encoded'', Flt 17990), (''cylinders_6 cylinders'', Ent 1),
             (''cylinders_8 cylinders'', Ent 0), (''fuel_gas'', Ent 1),
             (''transmission_manual'', Ent 0), (''drive_fwd'', Ent 1), (''drive_rwd'', Ent 0),
             (''size_mid-size'', Ent 1)])"
  using C7_age_exacta [of a_ejemplo 0 2030 "''ford''" "''white''" "''ca''"
        "''6 cylinders''" "''gas''" "''automatic''" "''fwd''" "''mid-size''"
        "X_train_columns a_ejemplo" bibliotecas_instaladas]
  by (simp add: a_ejemplo_def codificar_datos_para_modelo_def dict_get_def activar_ohe_def
        seleccionar_columnas_def codificar_X_dmatrix_def luego_def bibliotecas_instaladas_def
        xgb_DMatrix_instalado_def columna_object_def)

text \<open>
  The claim as the specification words it, for every integer year and without raising,
  fails when the age leaves the 64-bit range: for the year \<open>-10^30\<close> the row holds the
  exact age, its column gets the dtype \<open>object\<close>, and the encoder ends with the
  \<open>ValueError\<close> of \<open>xgb.DMatrix\<close>, both as written and as decorated. The form's
  slider keeps the year between 1980 and the reference year.
\<close>

theorem C7_year_fuera_de_rango_counterexample:
  "codificar_X_dmatrix bibliotecas_instaladas a_ejemplo 50000 (- (10 ^ 30))
        ''ford'' ''white'' ''ca'' ''6 cylinders'' ''gas'' ''automatic'' ''fwd'' ''mid-size''
        (X_train_columns a_ejemplo)
      = Inl (OtraExcepcion
          ''ValueError: DataFrame.dtypes for data must be int, float, bool or category'')
   \<and> codificar_datos_para_modelo_cache bibliotecas_instaladas a_ejemplo 50000 (- (10 ^ 30))
        ''ford'' ''white'' ''ca'' ''6 cylinders'' ''gas'' ''automatic'' ''fwd'' ''mid-size''
        (X_train_columns a_ejemplo)
      = Inl (OtraExcepcion
          ''ValueError: DataFrame.dtypes for data must be int, float, bool or category'')"
  by (simp add: a_ejemplo_def codificar_datos_para_modelo_def dict_get_def activar_ohe_def
        seleccionar_columnas_def codificar_datos_para_modelo_cache_def st_cache_data_def
        codificar_X_dmatrix_def luego_def bibliotecas_instaladas_def
        xgb_DMatrix_instalado_def columna_object_def)

text \<open>
  C8. In the row, every column other than \<open>odometer\<close>, \<open>age\<close>, the three
  target-encoded columns and the columns activated for the five categorical fields (the
  column of the supplied value; none for \<open>transmission = automatic\<close> and for
  \<open>drive = awd\<close>) holds 0.
\<close>

theorem C8_resto_en_cero:
  "\<exists>fila. codificar_datos_para_modelo a odometer year manufacturer paint_color state
              cylinders fuel transmission drive size' cols = Inr fila
     \<and> (\<forall>(col, x) \<in> set fila.
           col \<notin> {''odometer'', ''age'', ''manufacturer_encoded'', ''paint_color_encoded'',
                    ''state_encoded''}
           \<and> col \<noteq> ''cylinders_'' @ cylinders
           \<and> col \<noteq> ''fuel_'' @ fuel
           \<and> (transmission = ''automatic'' \<or> col \<noteq> ''transmission_'' @ transmission)
           \<and> (drive = ''awd'' \<or> col \<noteq> ''drive_'' @ drive)
           \<and> col \<noteq> ''size_'' @ size'
           \<longrightarrow> x = Ent 0)"
  by (auto simp: codificar_forma_cerrada comp_def valor_columna_def)

theorem C8_resto_en_cero_witness:
  "''cylinders_6 cylinders'' \<notin> {''odometer'', ''age'', ''manufacturer_encoded'',
        ''paint_color_encoded'', ''state_encoded''}
   \<and> ''cylinders_6 cylinders'' \<noteq> ''cylinders_'' @ ''8 cylinders''
   \<and> ''cylinders_6 cylinders'' \<noteq> ''fuel_'' @ ''gas''
   \<and> ''cylinders_6 cylinders'' \<noteq> ''transmission_'' @ ''manual''
   \<and> ''cylinders_6 cylinders'' \<noteq> ''drive_'' @ ''awd''
   \<and> ''cylinders_6 cylinders'' \<noteq> ''size_'' @ ''compact''
   \<and> codificar_datos_para_modelo a_ejemplo 87500 1998 ''toyota'' ''white'' ''tx''
        ''8 cylinders'' ''gas'' ''manual'' ''awd'' ''compact'' (X_train_columns a_ejemplo)
      = Inr [(''odometer'', Ent 87500), (''age'', Ent 26),
             (''manufacturer_encoded'', Flt 16100), (''paint_color_encoded'', Flt 17400.25),
             (''state_encoded'', Flt 18310.75), (''cylinders_6 cylinders'', Ent 0),
             (''cylinders_8 cylinders'', Ent 1), (''fuel_gas'', Ent 1),
             (''transmission_manual'', Ent 1), (''drive_fwd'', Ent 0), (''drive_rwd'', Ent 0),
             (''size_mid-size'', Ent 0)]"
  using C8_resto_en_cero [of a_ejemplo 87500 1998 "''toyota''" "''white''" "''tx''"
        "''8 cylinders''" "''gas''" "''manual''" "''awd''" "''compact''"
        "X_train_columns a_ejemplo"]
  by (simp add: a_ejemplo_def codificar_datos_para_modelo_def dict_get_def activar_ohe_def
        seleccionar_columnas_def)

text \<open>
  C9. The claim, that the encoder raises nothing whatever the input, is what the docstring
  promises (a \<open>DMatrix\<close> ready for prediction) and what the caller at lines 244-251
  relies on, and the program does not do it. On the form's default input the function as
  written builds the \<open>DMatrix\<close>, and the decorated function, the one the script calls,
  ends with the \<open>ValueError\<close> of the cache write, because a \<open>DMatrix\<close> cannot be
  pickled.
\<close>

theorem C9_error_al_guardar_en_cache:
  "codificar_X_dmatrix bibliotecas_instaladas a_ejemplo 50000 2019 ''ford'' ''white'' ''ca''
        ''6 cylinders'' ''gas'' ''automatic'' ''fwd'' ''mid-size'' (X_train_columns a_ejemplo)
      = Inr (DMatrix [(''odometer'', Ent 50000), (''age'', Ent 5),
             (''manufacturer_encoded'', Flt 18250.5), (''paint_color_encoded'', Flt 17400.25),
             (''state_encoded'', Flt 17990), (''cylinders_6 cylinders'', Ent 1),
             (''cylinders_8 cylinders'', Ent 0), (''fuel_gas'', Ent 1),
             (''transmission_manual'', Ent 0), (''drive_fwd'', Ent 1), (''drive_rwd'', Ent 0),
             (''size_mid-size'', Ent 1)])
   \<and> codificar_datos_para_modelo_cache bibliotecas_instaladas a_ejemplo 50000 2019
        ''ford'' ''white'' ''ca'' ''6 cylinders'' ''gas'' ''automatic'' ''fwd'' ''mid-size''
        (X_train_columns a_ejemplo)
      = Inl (OtraExcepcion
          ''ValueError: ctypes objects containing pointers cannot be pickled'')"
  by (simp add: a_ejemplo_def codificar_datos_para_modelo_def dict_get_def activar_ohe_def
        seleccionar_columnas_def codificar_datos_para_modelo_cache_def st_cache_data_def
        codificar_X_dmatrix_def luego_def bibliotecas_instaladas_def
        xgb_DMatrix_instalado_def cache_data_guardar_instalado_def columna_object_def)


section \<open>Properties of the loader\<close>

text \<open>
  C5, as the program has it. When a required load (the model, or one of the nine
  \<open>.joblib\<close> files read before the reference year) raises, the loader does not go on:
  if the first exception is a \<open>FileNotFoundError\<close> the script shows a banner carrying
  the exception text, which names the missing file, and stops; if it is an
  \<open>XGBoostError\<close> the script shows a banner carrying \<open>MODEL_PATH\<close> and the
  exception text, and stops; an exception of any other class is not handled and leaves the
  script. Whenever the loader does go on, each of the ten required artefacts is the object
  its load returned, and it goes on whenever all ten loads return, whatever happens to the
  reference-year file.
\<close>

theorem C5_carga_requerida:
  "(primera_excepcion env = Some (FileNotFoundError s) \<longrightarrow>
      cargar_artefactos env = Detenido (ErrorArchivo MODEL_PATH s))
   \<and> (primera_excepcion env = Some (XGBoostError s) \<longrightarrow>
      cargar_artefactos env = Detenido (ErrorModelo MODEL_PATH s))
   \<and> (primera_excepcion env = Some (OtraExcepcion s) \<longrightarrow>
      cargar_artefactos env = NoCapturada (OtraExcepcion s))
   \<and> (primera_excepcion env = Some e \<longrightarrow> cargar_artefactos env \<noteq> Cargado a)
   \<and> (cargar_artefactos env = Cargado a \<longrightarrow>
        load_model env = Inr (final_model a)
      \<and> load_X_train_columns env = Inr (X_train_columns a)
      \<and> load_manufacturer_target_encoding env = Inr (manufacturer_target_encoding a)
      \<and> load_paint_color_target_encoding env = Inr (paint_color_target_encoding a)
      \<and> load_state_target_encoding env = Inr (state_target_encoding a)
      \<and> load_CylindersUnique env = Inr (CylindersUnique a)
      \<and> load_FuelUnique env = Inr (FuelUnique a)
      \<and> load_TransmissionUnique env = Inr (TransmissionUnique a)
      \<and> load_DriveUnique env = Inr (DriveUnique a)
      \<and> load_SizeUnique env = Inr (SizeUnique a))
   \<and> (primera_excepcion env = None \<longrightarrow> (\<exists>a'. cargar_artefactos env = Cargado a'))"
proof (intro conjI impI)
  assume "primera_excepcion env = Some (FileNotFoundError s)"
  then show "cargar_artefactos env = Detenido (ErrorArchivo MODEL_PATH s)"
    by (simp add: cargar_artefactos_def cuerpo_try_Inl)
next
  assume "primera_excepcion env = Some (XGBoostError s)"
  then show "cargar_artefactos env = Detenido (ErrorModelo MODEL_PATH s)"
    by (simp add: cargar_artefactos_def cuerpo_try_Inl)
next
  assume "primera_excepcion env = Some (OtraExcepcion s)"
  then show "cargar_artefactos env = NoCapturada (OtraExcepcion s)"
    by (simp add: cargar_artefactos_def cuerpo_try_Inl)
next
  assume "primera_excepcion env = Some e"
  then show "cargar_artefactos env \<noteq> Cargado a"
    by (simp add: cargar_artefactos_Cargado cuerpo_try_Inl)
next
  assume "primera_excepcion env = None"
  then show "\<exists>a'. cargar_artefactos env = Cargado a'"
    by (simp add: cargar_artefactos_Cargado cuerpo_try_None)
qed (simp_all add: cargar_artefactos_Cargado cuerpo_try_Inr)

theorem C5_carga_requerida_witness:
  "primera_excepcion
       (env_ejemplo\<lparr>load_FuelUnique := Inl (no_such_file ''FuelUnique.joblib'')\<rparr>)
     = Some (no_such_file ''FuelUnique.joblib'')
   \<and> cargar_artefactos
       (env_ejemplo\<lparr>load_FuelUnique := Inl (no_such_file ''FuelUnique.joblib'')\<rparr>)
     = Detenido (ErrorArchivo ''../models/hiper_xgboost_50iter_42.json''
         (''[Errno 2] No such file or directory: '' @ [CHR 0x27] @ ''FuelUnique.joblib''
            @ [CHR 0x27]))
   \<and> primera_excepcion env_ejemplo = None
   \<and> cargar_artefactos env_ejemplo = Cargado (a_ejemplo\<lparr>ANO_ACTUAL := 2025\<rparr>)"
  using C5_carga_requerida
      [of "env_ejemplo\<lparr>load_FuelUnique := Inl (no_such_file ''FuelUnique.joblib'')\<rparr>"
          "''[Errno 2] No such file or directory: '' @ [CHR 0x27] @ ''FuelUnique.joblib''
             @ [CHR 0x27]"
          "no_such_file ''FuelUnique.joblib''" a_ejemplo]
  by (simp add: env_ejemplo_def a_ejemplo_def no_such_file_def primera_excepcion_def fallo_def
        cargar_artefactos_def cuerpo_try_def luego_def cargar_ANO_ACTUAL_def MODEL_PATH_def)

text \<open>
  The claim as the specification words it, for any missing artefact file, fails on the
  reference year: with \<open>ANO_ACTUAL.joblib\<close> missing and everything else in place, the
  loader shows nothing and goes on with the year 2024.
\<close>

theorem C5_sin_ANO_ACTUAL_counterexample:
  "load_ANO_ACTUAL
       (env_ejemplo\<lparr>load_ANO_ACTUAL := Inl (no_such_file ''ANO_ACTUAL.joblib'')\<rparr>)
     = Inl (no_such_file ''ANO_ACTUAL.joblib'')
   \<and> cargar_artefactos
       (env_ejemplo\<lparr>load_ANO_ACTUAL := Inl (no_such_file ''ANO_ACTUAL.joblib'')\<rparr>)
     = Cargado a_ejemplo"
  by (simp add: env_ejemplo_def a_ejemplo_def cargar_artefactos_def cuerpo_try_def luego_def
        cargar_ANO_ACTUAL_def)

text \<open>
  C10. If loading \<open>ANO_ACTUAL.joblib\<close> raises, whatever the exception, the inner
  \<open>try\<close> yields 2024, and the loader behaves exactly as if the file had held 2024: it
  reports nothing about the file, and when the required loads all return it goes on with
  \<open>ANO_ACTUAL = 2024\<close>.
\<close>

theorem C10_respaldo_2024:
  "cargar_ANO_ACTUAL (Inl e) = 2024
   \<and> (load_ANO_ACTUAL env = Inl e \<longrightarrow>
        cargar_artefactos env = cargar_artefactos (env\<lparr>load_ANO_ACTUAL := Inr 2024\<rparr>))
   \<and> (load_ANO_ACTUAL env = Inl e \<and> primera_excepcion env = None \<longrightarrow>
        (\<exists>a. cargar_artefactos env = Cargado a \<and> ANO_ACTUAL a = 2024))"
proof (intro conjI impI)
  show "cargar_ANO_ACTUAL (Inl e) = 2024"
    by (simp add: cargar_ANO_ACTUAL_def)
next
  assume "load_ANO_ACTUAL env = Inl e"
  then show "cargar_artefactos env = cargar_artefactos (env\<lparr>load_ANO_ACTUAL := Inr 2024\<rparr>)"
    by (simp add: cargar_artefactos_def cuerpo_try_def cargar_ANO_ACTUAL_def)
next
  assume h: "load_ANO_ACTUAL env = Inl e \<and> primera_excepcion env = None"
  then obtain a where a: "cuerpo_try env = Inr a"
    using cuerpo_try_None by blast
  with h have "ANO_ACTUAL a = 2024"
    using cuerpo_try_Inr [OF a] by (simp add: cargar_ANO_ACTUAL_def)
  with a show "\<exists>a. cargar_artefactos env = Cargado a \<and> ANO_ACTUAL a = 2024"
    by (auto simp: cargar_artefactos_Cargado)
qed

theorem C10_respaldo_2024_witness:
  "load_ANO_ACTUAL
       (env_ejemplo\<lparr>load_ANO_ACTUAL := Inl (OtraExcepcion ''UnpicklingError'')\<rparr>)
     = Inl (OtraExcepcion ''UnpicklingError'')
   \<and> primera_excepcion
       (env_ejemplo\<lparr>load_ANO_ACTUAL := Inl (OtraExcepcion ''UnpicklingError'')\<rparr>) = None
   \<and> cargar_artefactos
       (env_ejemplo\<lparr>load_ANO_ACTUAL := Inl (OtraExcepcion ''UnpicklingError'')\<rparr>)
     = Cargado a_ejemplo
   \<and> ANO_ACTUAL a_ejemplo = 2024"
  using C10_respaldo_2024
      [of "OtraExcepcion ''UnpicklingError''"
          "env_ejemplo\<lparr>load_ANO_ACTUAL := Inl (OtraExcepcion ''UnpicklingError'')\<rparr>"]
  by (simp add: env_ejemplo_def a_ejemplo_def primera_excepcion_def fallo_def
        cargar_artefactos_def cuerpo_try_def luego_def cargar_ANO_ACTUAL_def)

end
